theory Spec2Isabelle
  imports Main "HOL-Library.Multiset"
begin

section \<open>Python string primitives used by the schema descriptor\<close>

text \<open>
  Python strings are modelled as \<^typ>\<open>string\<close>. The source calls \<^verbatim>\<open>str.replace\<close> only with
  a one-character pattern (\<^verbatim>\<open>' '\<close>, \<^verbatim>\<open>'\n'\<close>, \<^verbatim>\<open>'_'\<close>, \<^verbatim>\<open>','\<close>), so \<open>replace s old new\<close>
  takes the pattern as a single character: every occurrence of \<open>old\<close> in \<open>s\<close> is
  replaced by the string \<open>new\<close>, from left to right.
\<close>

definition replace :: "string \<Rightarrow> char \<Rightarrow> string \<Rightarrow> string" where
  "replace s old new = concat (map (\<lambda>c. if c = old then new else [c]) s)"

text \<open>\<^verbatim>\<open>sep.join(xs)\<close>.\<close>

fun join :: "string \<Rightarrow> string list \<Rightarrow> string" where
  "join sep [] = []"
| "join sep [x] = x"
| "join sep (x # y # ys) = x @ sep @ join sep (y # ys)"

text \<open>
  \<^verbatim>\<open>str.upper()\<close> on the letters \<open>a\<close> to \<open>z\<close>; every other character is kept. Type
  strings reported by a database engine are ASCII.
\<close>

definition upper_char :: "char \<Rightarrow> char" where
  "upper_char c =
     (let n = (of_char c :: nat) in if 97 \<le> n \<and> n \<le> 122 then char_of (n - 32) else c)"

definition upper :: "string \<Rightarrow> string" where
  "upper s = map upper_char s"

text \<open>
  \<^verbatim>\<open>list.sort(key=key, reverse=True)\<close> for a Boolean key. Python's sort is stable, and with
  \<^verbatim>\<open>reverse=True\<close> it keeps the original order of elements with equal keys: the list
  is reversed, sorted in ascending order by a stable sort, and reversed again.
  \<^const>\<open>sort_key\<close> is a stable (insertion) sort, and \<open>False < True\<close> as in Python.
\<close>

definition sort_reverse :: "('a \<Rightarrow> bool) \<Rightarrow> 'a list \<Rightarrow> 'a list" where
  "sort_reverse key xs = rev (sort_key key (rev xs))"


section \<open>The metadata source\<close>

text \<open>
  What the descriptor reads from Django: the connection registry \<^verbatim>\<open>connections\<close>, and of a
  model class its \<^verbatim>\<open>_meta\<close> and \<^verbatim>\<open>__doc__\<close>. The docstring \<^verbatim>\<open>__doc__\<close> of a model class is a
  string. The source defines no exception class and catches nothing; the exceptions that
  can leave \<^verbatim>\<open>_load\<close> are values of type \<open>exn\<close>:
  \<^item> \<open>ConnectionDoesNotExist alias\<close>, raised by the registry for an alias that is not
    configured;
  \<^item> \<open>FieldException c\<close>, an exception of class \<open>c\<close> raised inside \<^verbatim>\<open>db_type\<close>;
  \<^item> \<open>AttributeError\<close>, raised by \<^verbatim>\<open>.upper()\<close> when \<^verbatim>\<open>db_type\<close> returns \<^verbatim>\<open>None\<close>, which is what
    Django's \<^verbatim>\<open>Field.db_type\<close> returns for a type that the backend cannot resolve.
\<close>

datatype connection = Connection string

datatype exn = ConnectionDoesNotExist string | FieldException string | AttributeError

type_synonym connections = "string \<rightharpoonup> connection"

text \<open>
  The attribute \<^verbatim>\<open>remote_field\<close> of a Django field: missing (\<^verbatim>\<open>hasattr\<close> is false), present
  and \<^verbatim>\<open>None\<close>, or a relation to another model.
\<close>

datatype remote = NoAttribute | IsNone | Relation string

record django_field =
  name :: string
  verbose_name :: string
  db_type :: "connection \<Rightarrow> exn + string option"
  primary_key :: bool
  remote_field :: remote
  choices :: "string list"
  db_index :: bool
  unique :: bool

record Meta =
  app_label :: string
  db_table :: string
  meta_fields :: "django_field list"
  index_together :: "string list list"
  unique_together :: "string list list"

record Model =
  meta :: Meta
  doc :: string


section \<open>Field\<close>

record Field =
  name :: string
  db_type :: string
  description :: string
  primary_key :: bool
  foreign_key :: bool
  choices :: "string list"

definition markdown_repr :: "Field \<Rightarrow> string" where
  "markdown_repr self =
     ''| '' @ name self @ '' '' @
     ''| '' @ (if primary_key self then ''PK, '' else '''') @
       (if foreign_key self then ''FK, '' else '''') @ db_type self @ '' '' @
     ''| '' @ description self @ '' |\<newline>''"

definition plantuml_entity_repr :: "Field \<Rightarrow> string" where
  "plantuml_entity_repr self =
     [CHR 0x09] @ name self @ '': '' @ (if primary_key self then ''PK, '' else '''') @
       (if foreign_key self then ''FK, '' else '''') @ db_type self @ ''\<newline>''"


section \<open>ModelDescriptor\<close>

record ModelDescriptor =
  self_meta :: Meta
  self_model_description :: string
  self_fields :: "Field list"
  self_db_indexes :: "string list"
  self_unique_constraints :: "string list"

text \<open>The \<^verbatim>\<open>Field(...)\<close> constructed in the first loop of \<^verbatim>\<open>_load\<close> for one column.\<close>

definition make_Field :: "connection \<Rightarrow> django_field \<Rightarrow> exn + Field" where
  "make_Field connection django_field =
     (case django_field.db_type django_field connection of
        Inl e \<Rightarrow> Inl e
      | Inr None \<Rightarrow> Inl AttributeError
      | Inr (Some t) \<Rightarrow> Inr \<lparr>
          name = django_field.name django_field,
          db_type = upper t,
          description =
            (if verbose_name django_field \<noteq> replace (django_field.name django_field) CHR ''_'' '' ''
             then verbose_name django_field else ''''),
          primary_key = django_field.primary_key django_field,
          foreign_key =
            (case remote_field django_field of
               NoAttribute \<Rightarrow> False | IsNone \<Rightarrow> False | Relation r \<Rightarrow> True),
          choices = django_field.choices django_field\<rparr>)"

text \<open>The first loop of \<^verbatim>\<open>_load\<close>, over \<^verbatim>\<open>meta.fields\<close>; it stops at the first exception.\<close>

fun load_fields ::
  "connection \<Rightarrow> django_field list \<Rightarrow> ModelDescriptor \<Rightarrow> exn + ModelDescriptor" where
  "load_fields connection [] self = Inr self"
| "load_fields connection (django_field # rest) self =
     (case make_Field connection django_field of
        Inl e \<Rightarrow> Inl e
      | Inr f \<Rightarrow>
          (let self1 = self\<lparr>self_fields := self_fields self @ [f]\<rparr>;
               self2 =
                 (if \<not> django_field.primary_key django_field \<and> db_index django_field
                  then self1\<lparr>self_db_indexes :=
                         self_db_indexes self1 @ [django_field.name django_field]\<rparr>
                  else self1);
               self3 =
                 (if \<not> django_field.primary_key django_field \<and> unique django_field
                  then self2\<lparr>self_unique_constraints :=
                         self_unique_constraints self2 @ [django_field.name django_field]\<rparr>
                  else self2)
           in load_fields connection rest self3))"

definition load :: "connections \<Rightarrow> ModelDescriptor \<Rightarrow> exn + ModelDescriptor" where
  "load conns self =
     (let meta = self_meta self in
      case conns (app_label meta) of
        None \<Rightarrow> Inl (ConnectionDoesNotExist (app_label meta))
      | Some connection \<Rightarrow>
          (case load_fields connection (meta_fields meta) self of
             Inl e \<Rightarrow> Inl e
           | Inr self1 \<Rightarrow>
               (let self2 = self1\<lparr>self_fields := sort_reverse foreign_key (self_fields self1)\<rparr>;
                    self3 = self2\<lparr>self_fields := sort_reverse primary_key (self_fields self2)\<rparr>;
                    self4 =
                      foldl (\<lambda>s composite_index_fields.
                               s\<lparr>self_db_indexes :=
                                   self_db_indexes s @ [join '','' composite_index_fields]\<rparr>)
                        self3 (index_together meta);
                    self5 =
                      foldl (\<lambda>s unique_constraint_fields.
                               s\<lparr>self_unique_constraints :=
                                   self_unique_constraints s @ [join '','' unique_constraint_fields]\<rparr>)
                        self4 (unique_together meta)
                in Inr self5)))"

text \<open>\<^verbatim>\<open>ModelDescriptor.__init__\<close>: the constructor either returns the object or raises.\<close>

definition ModelDescriptor_init :: "connections \<Rightarrow> Model \<Rightarrow> exn + ModelDescriptor" where
  "ModelDescriptor_init conns model =
     load conns \<lparr>
       self_meta = meta model,
       self_model_description = replace (replace (doc model) CHR '' '' '''') CHR ''\<newline>'' '''',
       self_fields = [],
       self_db_indexes = [],
       self_unique_constraints = []\<rparr>"

definition markdown :: "ModelDescriptor \<Rightarrow> string" where
  "markdown self =
     (let markdown_str0 =
            ''## '' @ db_table (self_meta self) @ ''\<newline>'' @
            self_model_description self @ ''\<newline>\<newline>'' @
            ''#### schema\<newline>'' @
            ''| field_name | type | description |\<newline>|---|---|---|\<newline>'';
          markdown_str1 =
            foldl (\<lambda>s field. s @ markdown_repr field) markdown_str0 (self_fields self);
          markdown_str2 =
            markdown_str1 @
            ''\<newline>\<newline>'' @
            ''#### additional info\<newline>'' @
            ''| type | value | description |\<newline>|---|---|---|\<newline>'';
          markdown_str3 =
            foldl (\<lambda>s index. s @ ''| index | '' @ replace index CHR '','' '', '' @ '' | |\<newline>'')
              markdown_str2 (self_db_indexes self);
          markdown_str4 =
            foldl (\<lambda>s unique_constraint.
                     s @ ''| unique | '' @ replace unique_constraint CHR '','' '', '' @ '' | |\<newline>'')
              markdown_str3 (self_unique_constraints self)
      in markdown_str4)"

text \<open>The first loop of \<^verbatim>\<open>plantuml_entity\<close>: the position of the last key field, if any.\<close>

definition last_primary_or_foreign_key_index :: "Field list \<Rightarrow> nat option" where
  "last_primary_or_foreign_key_index fs =
     foldl (\<lambda>last (i, f). if primary_key f \<or> foreign_key f then Some i else last)
       None (enumerate 0 fs)"

definition plantuml_entity :: "ModelDescriptor \<Rightarrow> string" where
  "plantuml_entity self =
     (let plantuml_entity_str0 = ''entity '' @ db_table (self_meta self) @ '' {\<newline>'';
          last = last_primary_or_foreign_key_index (self_fields self);
          plantuml_entity_str1 =
            foldl (\<lambda>s (i, field).
                     (let s1 = s @ plantuml_entity_repr field
                      in if Some i = last then s1 @ [CHR 0x09] @ ''--\<newline>'' else s1))
              plantuml_entity_str0 (enumerate 0 (self_fields self))
      in plantuml_entity_str1 @ ''}\<newline>'')"


section \<open>Notions used to state the properties\<close>

text \<open>
  The table description as the specification words it: the source text with all
  whitespace and line breaks removed. \<open>isspace\<close> is Python's \<^verbatim>\<open>str.isspace\<close> on ASCII:
  tab, line feed, vertical tab, form feed, carriage return, the four separators
  \<open>0x1C\<close> to \<open>0x1F\<close>, and the space.
\<close>

definition isspace :: "char \<Rightarrow> bool" where
  "isspace c =
     (let n = (of_char c :: nat) in (9 \<le> n \<and> n \<le> 13) \<or> (28 \<le> n \<and> n \<le> 31) \<or> n = 32)"

definition spec_table_description :: "string \<Rightarrow> string" where
  "spec_table_description text = filter (\<lambda>c. \<not> isspace c) text"

text \<open>
  The error kind that the specification names for an unresolvable column type. The source
  defines no class of this name and raises nothing of its own, so an exception of this
  class could only be one raised inside \<^verbatim>\<open>db_type\<close>.
\<close>

definition spec_UnsupportedSchemaError :: exn where
  "spec_UnsupportedSchemaError = FieldException ''UnsupportedSchemaError''"

text \<open>
  The lines of a text: the pieces between line feeds, a final line feed ending the last
  line (as \<^verbatim>\<open>str.splitlines\<close> cuts at \<^verbatim>\<open>'\n'\<close>).
\<close>

fun split_lines :: "string \<Rightarrow> string list" where
  "split_lines [] = []"
| "split_lines (c # cs) =
     (if c = CHR ''\<newline>'' then [] # split_lines cs
      else (case split_lines cs of [] \<Rightarrow> [[c]] | l # ls \<Rightarrow> (c # l) # ls))"

text \<open>A field is a key field when it is a primary or a foreign key.\<close>

definition is_key :: "Field \<Rightarrow> bool" where
  "is_key f = (primary_key f \<or> foreign_key f)"

text \<open>The separator line of the diagram, and the line of one field, without line feed.\<close>

definition separator_line :: string where
  "separator_line = [CHR 0x09] @ ''--''"

definition field_line :: "Field \<Rightarrow> string" where
  "field_line f = butlast (plantuml_entity_repr f)"


section \<open>Example tables\<close>

definition example_connections :: connections where
  "example_connections = [''shop'' \<mapsto> Connection ''MySQL'']"

definition column ::
  "string \<Rightarrow> string \<Rightarrow> exn + string option \<Rightarrow> bool \<Rightarrow> remote \<Rightarrow> bool \<Rightarrow> bool \<Rightarrow> django_field" where
  "column n v t pk r ix u = \<lparr>
     django_field.name = n, verbose_name = v, db_type = (\<lambda>c. t), primary_key = pk,
     remote_field = r, choices = [], db_index = ix, unique = u\<rparr>"

definition orders :: Model where
  "orders = \<lparr>
     meta = \<lparr>
       app_label = ''shop'', db_table = ''orders'',
       meta_fields = [
         column ''status'' ''order status'' (Inr (Some ''varchar(20)'')) False NoAttribute False True,
         column ''customer_id'' ''customer id'' (Inr (Some ''bigint'')) False (Relation ''customer'')
           True False,
         column ''id'' ''ID'' (Inr (Some ''bigint'')) True IsNone False True,
         column ''coupon_id'' ''coupon'' (Inr (Some ''bigint'')) False (Relation ''coupon'') False False],
       index_together = [[''status'', ''customer_id'']],
       unique_together = []\<rparr>,
     doc = ''Customer order header''\<rparr>"

text \<open>A table whose second column has a type for which \<^verbatim>\<open>db_type\<close> raises.\<close>

definition unresolved :: Model where
  "unresolved = \<lparr>
     meta = \<lparr>
       app_label = ''shop'', db_table = ''blobs'',
       meta_fields = [
         column ''id'' ''ID'' (Inr (Some ''bigint'')) True IsNone False True,
         column ''payload'' ''payload'' (Inl (FieldException ''NotSupportedError'')) False
           NoAttribute False False,
         column ''status'' ''status'' (Inr (Some ''varchar(20)'')) False NoAttribute False False],
       index_together = [],
       unique_together = []\<rparr>,
     doc = ''Blobs''\<rparr>"

text \<open>A table whose second column has a type for which \<^verbatim>\<open>db_type\<close> returns \<^verbatim>\<open>None\<close>.\<close>

definition untyped :: Model where
  "untyped = \<lparr>
     meta = \<lparr>
       app_label = ''shop'', db_table = ''shapes'',
       meta_fields = [
         column ''id'' ''ID'' (Inr (Some ''bigint'')) True IsNone False True,
         column ''outline'' ''outline'' (Inr None) False NoAttribute False False,
         column ''label'' ''label'' (Inr (Some ''varchar(20)'')) False NoAttribute False False],
       index_together = [],
       unique_together = []\<rparr>,
     doc = ''Shapes''\<rparr>"

text \<open>A docstring indented by a tab, and a column with an empty verbose name.\<close>

definition tabbed :: Model where
  "tabbed = \<lparr>
     meta = \<lparr>
       app_label = ''shop'', db_table = ''notes'',
       meta_fields = [column ''a'' '''' (Inr (Some ''text'')) False NoAttribute False False],
       index_together = [],
       unique_together = []\<rparr>,
     doc = ''Notes'' @ [CHR ''\<newline>'', CHR 0x09] @ ''of a user''\<rparr>"

definition empty_table :: ModelDescriptor where
  "empty_table = \<lparr>
     self_meta = \<lparr>
       app_label = ''shop'', db_table = ''nothing'', meta_fields = [],
       index_together = [], unique_together = []\<rparr>,
     self_model_description = ''Nothing'',
     self_fields = [],
     self_db_indexes = [],
     self_unique_constraints = []\<rparr>"


section \<open>Auxiliary facts\<close>

lemma replace_append: "replace (a @ b) old new = replace a old new @ replace b old new"
  by (simp add: replace_def)

lemma replace_id: "old \<notin> set s \<Longrightarrow> replace s old new = s"
  by (induction s) (auto simp: replace_def)

lemma replace_remove: "replace s old [] = filter (\<lambda>c. c \<noteq> old) s"
  by (induction s) (auto simp: replace_def)

lemma replace_Nil: "replace [] old new = []"
  by (simp add: replace_def)

lemma replace_Cons:
  "replace (c # s) old new = (if c = old then new else [c]) @ replace s old new"
  by (simp add: replace_def)

lemma replace_join:
  "replace (join [c] xs) c new = join new (map (\<lambda>x. replace x c new) xs)"
  by (induction "[c]" xs rule: join.induct) (simp_all add: replace_append replace_Cons replace_Nil)

lemma insort_key_bool_False:
  "\<not> key x \<Longrightarrow> insort_key key x ys = x # ys"
  by (cases ys) auto

lemma insort_key_bool_True:
  "key x \<Longrightarrow> \<forall>y\<in>set as. \<not> key y \<Longrightarrow> \<forall>y\<in>set bs. key y \<Longrightarrow>
     insort_key key x (as @ bs) = as @ x # bs"
  by (induction as) (auto simp: insort_key_bool_False intro: insort_is_Cons)

lemma sort_key_bool:
  fixes key :: "'a \<Rightarrow> bool"
  shows "sort_key key xs = filter (\<lambda>x. \<not> key x) xs @ filter key xs"
proof (induction xs)
  case Nil
  show ?case by simp
next
  case (Cons x xs)
  show ?case
  proof (cases "key x")
    case True
    have "insort_key key x (filter (\<lambda>x. \<not> key x) xs @ filter key xs)
            = filter (\<lambda>x. \<not> key x) xs @ x # filter key xs"
      using True by (intro insort_key_bool_True) auto
    with True Cons show ?thesis by simp
  next
    case False
    with Cons show ?thesis by (simp add: insort_key_bool_False)
  qed
qed

lemma sort_reverse_eq:
  "sort_reverse key xs = filter key xs @ filter (\<lambda>x. \<not> key x) xs"
  by (simp add: sort_reverse_def sort_key_bool rev_filter)

lemma load_fields_Inr:
  "load_fields connection cols self = Inr self' \<Longrightarrow>
     \<exists>fs. map (make_Field connection) cols = map Inr fs \<and>
          self_fields self' = self_fields self @ fs \<and>
          self_db_indexes self' = self_db_indexes self @
            map django_field.name
              (filter (\<lambda>c. \<not> django_field.primary_key c \<and> db_index c) cols) \<and>
          self_unique_constraints self' = self_unique_constraints self @
            map django_field.name
              (filter (\<lambda>c. \<not> django_field.primary_key c \<and> unique c) cols) \<and>
          self_meta self' = self_meta self \<and>
          self_model_description self' = self_model_description self"
proof (induction connection cols self rule: load_fields.induct)
  case (1 connection self)
  then show ?case by simp
next
  case (2 connection django_field rest self)
  from "2.prems" obtain f where f: "make_Field connection django_field = Inr f"
    by (auto split: sum.splits option.splits)
  define self3 where "self3 =
    (let self1 = self\<lparr>self_fields := self_fields self @ [f]\<rparr>;
         self2 =
           (if \<not> django_field.primary_key django_field \<and> db_index django_field
            then self1\<lparr>self_db_indexes :=
                   self_db_indexes self1 @ [django_field.name django_field]\<rparr>
            else self1)
     in (if \<not> django_field.primary_key django_field \<and> unique django_field
         then self2\<lparr>self_unique_constraints :=
                self_unique_constraints self2 @ [django_field.name django_field]\<rparr>
         else self2))"
  have rec: "load_fields connection rest self3 = Inr self'"
    using "2.prems" f by (simp add: self3_def Let_def)
  have "\<exists>fs. map (make_Field connection) rest = map Inr fs \<and>
          self_fields self' = self_fields self3 @ fs \<and>
          self_db_indexes self' = self_db_indexes self3 @
            map django_field.name
              (filter (\<lambda>c. \<not> django_field.primary_key c \<and> db_index c) rest) \<and>
          self_unique_constraints self' = self_unique_constraints self3 @
            map django_field.name
              (filter (\<lambda>c. \<not> django_field.primary_key c \<and> unique c) rest) \<and>
          self_meta self' = self_meta self3 \<and>
          self_model_description self' = self_model_description self3"
    using "2.IH"[OF f refl refl refl] rec by (simp add: self3_def Let_def)
  then obtain fs where fs: "map (make_Field connection) rest = map Inr fs"
      "self_fields self' = self_fields self3 @ fs"
      "self_db_indexes self' = self_db_indexes self3 @
            map django_field.name
              (filter (\<lambda>c. \<not> django_field.primary_key c \<and> db_index c) rest)"
      "self_unique_constraints self' = self_unique_constraints self3 @
            map django_field.name
              (filter (\<lambda>c. \<not> django_field.primary_key c \<and> unique c) rest)"
      "self_meta self' = self_meta self3"
      "self_model_description self' = self_model_description self3"
    by blast
  have "map (make_Field connection) (django_field # rest) = map Inr (f # fs)"
    using f fs(1) by simp
  moreover have "self_fields self' = self_fields self @ (f # fs)"
    using fs(2) by (simp add: self3_def Let_def)
  moreover have "self_db_indexes self' = self_db_indexes self @
            map django_field.name
              (filter (\<lambda>c. \<not> django_field.primary_key c \<and> db_index c) (django_field # rest))"
    using fs(3) by (simp add: self3_def Let_def)
  moreover have "self_unique_constraints self' = self_unique_constraints self @
            map django_field.name
              (filter (\<lambda>c. \<not> django_field.primary_key c \<and> unique c) (django_field # rest))"
    using fs(4) by (simp add: self3_def Let_def)
  moreover have "self_meta self' = self_meta self"
    using fs(5) by (simp add: self3_def Let_def)
  moreover have "self_model_description self' = self_model_description self"
    using fs(6) by (simp add: self3_def Let_def)
  ultimately show ?case by blast
qed


lemma make_Field_unresolved:
  "\<forall>t. django_field.db_type col connection \<noteq> Inr (Some t) \<Longrightarrow>
     make_Field connection col =
       Inl (case django_field.db_type col connection of Inl e \<Rightarrow> e | Inr r \<Rightarrow> AttributeError)"
  by (auto simp: make_Field_def split: sum.splits option.splits)

lemma load_fields_Inl:
  "\<forall>c\<in>set pre. \<exists>f. make_Field connection c = Inr f \<Longrightarrow> make_Field connection col = Inl e \<Longrightarrow>
     load_fields connection (pre @ col # post) self = Inl e"
  by (induction pre arbitrary: self) (auto simp: Let_def)

lemma foldl_db_indexes:
  "foldl (\<lambda>s g. s\<lparr>self_db_indexes := self_db_indexes s @ [h g]\<rparr>) s gs =
     s\<lparr>self_db_indexes := self_db_indexes s @ map h gs\<rparr>"
  by (induction gs arbitrary: s) simp_all

lemma foldl_unique_constraints:
  "foldl (\<lambda>s g. s\<lparr>self_unique_constraints := self_unique_constraints s @ [h g]\<rparr>) s gs =
     s\<lparr>self_unique_constraints := self_unique_constraints s @ map h gs\<rparr>"
  by (induction gs arbitrary: s) simp_all

lemma ModelDescriptor_init_Inr:
  assumes "ModelDescriptor_init conns model = Inr d"
  shows "\<exists>connection fs.
           conns (app_label (meta model)) = Some connection \<and>
           map (make_Field connection) (meta_fields (meta model)) = map Inr fs \<and>
           self_meta d = meta model \<and>
           self_model_description d =
             replace (replace (doc model) CHR '' '' '''') CHR ''\<newline>'' '''' \<and>
           self_fields d = sort_reverse primary_key (sort_reverse foreign_key fs) \<and>
           self_db_indexes d =
             map django_field.name
               (filter (\<lambda>c. \<not> django_field.primary_key c \<and> db_index c)
                  (meta_fields (meta model))) @
             map (join '','') (index_together (meta model)) \<and>
           self_unique_constraints d =
             map django_field.name
               (filter (\<lambda>c. \<not> django_field.primary_key c \<and> unique c)
                  (meta_fields (meta model))) @
             map (join '','') (unique_together (meta model))"
proof -
  define self0 where "self0 = \<lparr>
       self_meta = meta model,
       self_model_description = replace (replace (doc model) CHR '' '' '''') CHR ''\<newline>'' '''',
       self_fields = [],
       self_db_indexes = [],
       self_unique_constraints = []\<rparr>"
  have l: "load conns self0 = Inr d"
    using assms by (simp add: ModelDescriptor_init_def self0_def)
  have m0: "self_meta self0 = meta model" by (simp add: self0_def)
  from l obtain connection where c: "conns (app_label (meta model)) = Some connection"
    by (auto simp: load_def Let_def m0 split: option.splits)
  from l c obtain self1 where
    s1: "load_fields connection (meta_fields (meta model)) self0 = Inr self1"
    by (auto simp: load_def Let_def m0 split: sum.splits)
  have d: "d = self1\<lparr>
       self_fields := sort_reverse primary_key (sort_reverse foreign_key (self_fields self1)),
       self_db_indexes := self_db_indexes self1 @ map (join '','') (index_together (meta model)),
       self_unique_constraints :=
         self_unique_constraints self1 @ map (join '','') (unique_together (meta model))\<rparr>"
    using l c s1
    by (simp add: load_def Let_def m0 foldl_db_indexes foldl_unique_constraints)
  from load_fields_Inr[OF s1] obtain fs where
    fs: "map (make_Field connection) (meta_fields (meta model)) = map Inr fs"
      "self_fields self1 = self_fields self0 @ fs"
      "self_db_indexes self1 = self_db_indexes self0 @
         map django_field.name
           (filter (\<lambda>c. \<not> django_field.primary_key c \<and> db_index c) (meta_fields (meta model)))"
      "self_unique_constraints self1 = self_unique_constraints self0 @
         map django_field.name
           (filter (\<lambda>c. \<not> django_field.primary_key c \<and> unique c) (meta_fields (meta model)))"
      "self_meta self1 = self_meta self0"
      "self_model_description self1 = self_model_description self0"
    by blast
  show ?thesis
    using c fs by (intro exI[of _ connection] exI[of _ fs]) (simp add: d self0_def)
qed

lemma ModelDescriptor_init_Inl:
  assumes "conns (app_label (meta model)) = Some connection"
    and "load_fields connection (meta_fields (meta model)) \<lparr>
       self_meta = meta model,
       self_model_description = replace (replace (doc model) CHR '' '' '''') CHR ''\<newline>'' '''',
       self_fields = [],
       self_db_indexes = [],
       self_unique_constraints = []\<rparr> = Inl e"
  shows "ModelDescriptor_init conns model = Inl e"
  using assms by (simp add: ModelDescriptor_init_def load_def Let_def)

lemma front_run_nth:
  assumes "\<forall>x\<in>set as. P x" and "\<forall>x\<in>set bs. \<not> P x"
    and "i < j" and "j < length (as @ bs)" and "P ((as @ bs) ! j)"
  shows "P ((as @ bs) ! i)"
proof -
  have "j < length as"
  proof (rule ccontr)
    assume "\<not> j < length as"
    then have "(as @ bs) ! j = bs ! (j - length as)" and "j - length as < length bs"
      using assms(4) by (auto simp: nth_append)
    then have "(as @ bs) ! j \<in> set bs" by simp
    with assms(2,5) show False by blast
  qed
  then have "i < length as" using assms(3) by simp
  then have "(as @ bs) ! i \<in> set as" by (simp add: nth_append)
  with assms(1) show ?thesis by blast
qed

lemma filter_stable_pos:
  "(\<forall>x. Q x \<longrightarrow> P x) \<Longrightarrow> filter Q (filter P xs @ filter (\<lambda>x. \<not> P x) xs) = filter Q xs"
  by (induction xs) auto

lemma filter_stable_neg:
  assumes "\<forall>x. Q x \<longrightarrow> \<not> P x"
  shows "filter Q (filter P xs @ filter (\<lambda>x. \<not> P x) xs) = filter Q xs"
proof -
  have "filter Q (filter P xs) = []"
    using assms by (auto simp: filter_empty_conv)
  moreover have "filter Q (filter (\<lambda>x. \<not> P x) xs) = filter Q xs"
    using assms by (auto intro: filter_cong)
  ultimately show ?thesis by simp
qed

lemma filter_sort_reverse:
  "filter (\<lambda>x. key x = k \<and> R x) (sort_reverse key xs) = filter (\<lambda>x. key x = k \<and> R x) xs"
  by (cases k) (simp_all add: sort_reverse_eq filter_stable_pos filter_stable_neg)

lemma set_sort_reverse: "set (sort_reverse key xs) = set xs"
  by (auto simp: sort_reverse_eq)

lemma mset_sort_reverse: "mset (sort_reverse key xs) = mset xs"
  by (simp add: sort_reverse_def)

lemma length_sort_reverse: "length (sort_reverse key xs) = length xs"
  by (simp add: sort_reverse_def)

text \<open>The field list after the two sorts, as four runs in declaration order.\<close>

lemma two_sorts:
  "sort_reverse primary_key (sort_reverse foreign_key fs) =
     filter (\<lambda>f. primary_key f \<and> foreign_key f) fs @
     filter (\<lambda>f. primary_key f \<and> \<not> foreign_key f) fs @
     filter (\<lambda>f. \<not> primary_key f \<and> foreign_key f) fs @
     filter (\<lambda>f. \<not> primary_key f \<and> \<not> foreign_key f) fs"
  by (simp add: sort_reverse_eq conj_commute)

lemma foldl_append_string:
  "foldl (\<lambda>s x. s @ g x) s0 xs = s0 @ concat (map g xs)"
  by (induction xs arbitrary: s0) simp_all

lemma markdown_eq:
  "markdown self =
     ''## '' @ db_table (self_meta self) @ ''\<newline>'' @
     self_model_description self @ ''\<newline>\<newline>'' @
     ''#### schema\<newline>'' @
     ''| field_name | type | description |\<newline>|---|---|---|\<newline>'' @
     concat (map markdown_repr (self_fields self)) @
     ''\<newline>\<newline>'' @
     ''#### additional info\<newline>'' @
     ''| type | value | description |\<newline>|---|---|---|\<newline>'' @
     concat (map (\<lambda>index. ''| index | '' @ replace index CHR '','' '', '' @ '' | |\<newline>'')
       (self_db_indexes self)) @
     concat (map (\<lambda>unique_constraint.
         ''| unique | '' @ replace unique_constraint CHR '','' '', '' @ '' | |\<newline>'')
       (self_unique_constraints self))"
  unfolding markdown_def Let_def foldl_append_string by simp

lemma foldl_enumerate_string:
  "foldl (\<lambda>s (i, x). s @ g i x) s0 (enumerate n xs) =
     s0 @ concat (map (\<lambda>(i, x). g i x) (enumerate n xs))"
  by (induction xs arbitrary: s0 n) simp_all

lemma plantuml_entity_eq:
  "plantuml_entity self =
     ''entity '' @ db_table (self_meta self) @ '' {\<newline>'' @
     concat (map (\<lambda>(i, field). plantuml_entity_repr field @
          (if Some i = last_primary_or_foreign_key_index (self_fields self)
           then [CHR 0x09] @ ''--\<newline>'' else []))
        (enumerate 0 (self_fields self))) @
     ''}\<newline>''"
proof -
  have "foldl (\<lambda>s (i, field).
            (let s1 = s @ plantuml_entity_repr field
             in if Some i = last then s1 @ [CHR 0x09] @ ''--\<newline>'' else s1)) s0 xs =
        foldl (\<lambda>s (i, field). s @ (plantuml_entity_repr field @
            (if Some i = last then [CHR 0x09] @ ''--\<newline>'' else []))) s0 xs"
    for last s0 and xs :: "(nat \<times> Field) list"
    by (rule arg_cong[where f = "\<lambda>f. foldl f s0 xs"]) (auto simp: fun_eq_iff Let_def)
  then show ?thesis
    unfolding plantuml_entity_def Let_def by (simp add: foldl_enumerate_string)
qed

lemma last_primary_or_foreign_key_index_map:
  assumes "\<And>f. primary_key (g f) = primary_key f" and "\<And>f. foreign_key (g f) = foreign_key f"
  shows "last_primary_or_foreign_key_index (map g fs) = last_primary_or_foreign_key_index fs"
proof -
  have "foldl (\<lambda>last (i, f). if primary_key f \<or> foreign_key f then Some i else last) a
          (enumerate n (map g fs)) =
        foldl (\<lambda>last (i, f). if primary_key f \<or> foreign_key f then Some i else last) a
          (enumerate n fs)" for a n
    by (induction fs arbitrary: a n) (simp_all add: assms)
  then show ?thesis
    by (simp add: last_primary_or_foreign_key_index_def)
qed

lemma plantuml_body_map:
  assumes "\<And>f. plantuml_entity_repr (g f) = plantuml_entity_repr f"
  shows "concat (map (\<lambda>(i, field). plantuml_entity_repr field @ (if Some i = l then S else []))
            (enumerate n (map g fs))) =
         concat (map (\<lambda>(i, field). plantuml_entity_repr field @ (if Some i = l then S else []))
            (enumerate n fs))"
  by (induction fs arbitrary: n) (simp_all add: assms)

lemma replace_comma_join:
  assumes "\<forall>n\<in>set g. CHR '','' \<notin> set n"
  shows "replace (join '','' g) CHR '','' '', '' = join '', '' g"
proof -
  have "map (\<lambda>x. replace x CHR '','' '', '') g = g"
    using assms by (simp add: replace_id map_idI)
  then show ?thesis
    by (simp add: replace_join)
qed

lemma comma_in_join:
  "CHR '','' \<in> set (join '', '' (a # b # g))"
  by simp

lemma additional_info_rows:
  assumes "\<forall>n\<in>set singles. CHR '','' \<notin> set n"
    and "\<forall>g\<in>set groups. \<forall>n\<in>set g. CHR '','' \<notin> set n"
  shows "map (\<lambda>v. tag @ replace v CHR '','' '', '' @ end) (singles @ map (join '','') groups) =
         map (\<lambda>v. tag @ v @ end) (singles @ map (join '', '') groups)"
  using assms by (simp add: replace_id replace_comma_join)

lemma split_lines_line:
  "CHR ''\<newline>'' \<notin> set l \<Longrightarrow> split_lines (l @ CHR ''\<newline>'' # rest) = l # split_lines rest"
  by (induction l) auto

lemma split_lines_concat:
  "\<forall>l\<in>set ls. CHR ''\<newline>'' \<notin> set l \<Longrightarrow>
     split_lines (concat (map (\<lambda>l. l @ ''\<newline>'') ls) @ rest) = ls @ split_lines rest"
  by (induction ls) (simp_all add: split_lines_line)

lemma plantuml_entity_repr_line:
  "plantuml_entity_repr f = field_line f @ ''\<newline>''"
  by (simp add: field_line_def plantuml_entity_repr_def butlast_append)

lemma field_line_no_newline:
  "CHR ''\<newline>'' \<notin> set (name f) \<Longrightarrow> CHR ''\<newline>'' \<notin> set (db_type f) \<Longrightarrow>
     CHR ''\<newline>'' \<notin> set (field_line f)"
  by (simp add: field_line_def plantuml_entity_repr_def butlast_append)

lemma field_line_not_separator: "field_line f \<noteq> separator_line"
proof
  assume "field_line f = separator_line"
  then have "set (field_line f) = set separator_line" by simp
  moreover have "CHR '':'' \<in> set (field_line f)"
    by (simp add: field_line_def plantuml_entity_repr_def butlast_append)
  moreover have "CHR '':'' \<notin> set separator_line"
    by (simp add: separator_line_def)
  ultimately show False by simp
qed

lemma last_index_no_key:
  "\<forall>x\<in>set ns. \<not> is_key x \<Longrightarrow>
     foldl (\<lambda>last (i, f). if primary_key f \<or> foreign_key f then Some i else last) a
       (enumerate n ns) = a"
  by (induction ns arbitrary: n) (simp_all add: is_key_def)

lemma last_index_keys:
  "\<forall>x\<in>set ks. is_key x \<Longrightarrow> ks \<noteq> [] \<Longrightarrow>
     foldl (\<lambda>last (i, f). if primary_key f \<or> foreign_key f then Some i else last) a
       (enumerate n ks) = Some (n + length ks - 1)"
proof (induction ks arbitrary: a n)
  case Nil
  then show ?case by simp
next
  case (Cons x ks)
  show ?case
  proof (cases "ks = []")
    case True
    with Cons.prems show ?thesis by (simp add: is_key_def)
  next
    case False
    with Cons.prems Cons.IH[of "Some n" "Suc n"] show ?thesis
      by (simp add: is_key_def)
  qed
qed

lemma last_index_front_run:
  assumes "\<forall>x\<in>set ks. is_key x" and "\<forall>x\<in>set ns. \<not> is_key x"
  shows "last_primary_or_foreign_key_index (ks @ ns) =
           (if ks = [] then None else Some (length ks - 1))"
  using assms
  by (simp add: last_primary_or_foreign_key_index_def enumerate_append_eq
      last_index_no_key last_index_keys)

lemma body_out_of_range:
  "j < n \<Longrightarrow>
     concat (map (\<lambda>(i, field). plantuml_entity_repr field @ (if Some i = Some j then S else []))
       (enumerate n fs)) = concat (map plantuml_entity_repr fs)"
  by (induction fs arbitrary: n) simp_all

lemma body_plain:
  "concat (map (\<lambda>(i, field). plantuml_entity_repr field) (enumerate n fs)) =
     concat (map plantuml_entity_repr fs)"
  by (induction fs arbitrary: n) simp_all

lemma body_separator:
  "ks \<noteq> [] \<Longrightarrow>
     concat (map (\<lambda>(i, field). plantuml_entity_repr field @
           (if Some i = Some (n + length ks - 1) then S else []))
       (enumerate n (ks @ ns))) =
     concat (map plantuml_entity_repr ks) @ S @ concat (map plantuml_entity_repr ns)"
proof (induction ks arbitrary: n)
  case Nil
  then show ?case by simp
next
  case (Cons x ks)
  show ?case
  proof (cases "ks = []")
    case True
    then show ?thesis
      using body_out_of_range[of n "Suc n" S ns] by simp
  next
    case False
    with Cons.IH[of "Suc n"] show ?thesis by simp
  qed
qed

lemma plantuml_entity_front_run:
  assumes "self_fields d = ks @ ns" and "\<forall>x\<in>set ks. is_key x" and "\<forall>x\<in>set ns. \<not> is_key x"
  shows "plantuml_entity d =
     ''entity '' @ db_table (self_meta d) @ '' {\<newline>'' @
     concat (map plantuml_entity_repr ks) @
     (if ks = [] then [] else separator_line @ ''\<newline>'') @
     concat (map plantuml_entity_repr ns) @ ''}\<newline>''"
proof (cases "ks = []")
  case True
  have "last_primary_or_foreign_key_index (self_fields d) = None"
    using last_index_front_run[OF assms(2,3)] True assms(1) by simp
  then show ?thesis
    using True assms(1) by (simp add: plantuml_entity_eq body_plain)
next
  case False
  have "concat (map (\<lambda>(i, field). plantuml_entity_repr field @
           (if Some i = Some (0 + length ks - 1) then [CHR 0x09] @ ''--\<newline>'' else []))
       (enumerate 0 (ks @ ns))) =
     concat (map plantuml_entity_repr ks) @ ([CHR 0x09] @ ''--\<newline>'') @
       concat (map plantuml_entity_repr ns)"
    using False by (rule body_separator)
  with False show ?thesis
    by (simp add: plantuml_entity_eq assms(1) last_index_front_run[OF assms(2,3)]
        separator_line_def)
qed

lemma filter_front_run:
  assumes "\<forall>x\<in>set ks. P x" and "\<forall>x\<in>set ns. \<not> P x"
  shows "filter P (ks @ ns) = ks" and "filter (\<lambda>x. \<not> P x) (ks @ ns) = ns"
proof -
  have "filter P ks = ks" "filter P ns = []"
    "filter (\<lambda>x. \<not> P x) ks = []" "filter (\<lambda>x. \<not> P x) ns = ns"
    using assms by (simp_all add: filter_id_conv filter_empty_conv)
  then show "filter P (ks @ ns) = ks" and "filter (\<lambda>x. \<not> P x) (ks @ ns) = ns"
    by simp_all
qed

lemma key_fields_front_run:
  assumes "ModelDescriptor_init conns model = Inr d"
  shows "self_fields d =
           filter is_key (self_fields d) @ filter (\<lambda>f. \<not> is_key f) (self_fields d)"
proof -
  from ModelDescriptor_init_Inr[OF assms] obtain fs where
    sf: "self_fields d = sort_reverse primary_key (sort_reverse foreign_key fs)"
    by blast
  define ks where "ks =
     filter (\<lambda>f. primary_key f \<and> foreign_key f) fs @
     filter (\<lambda>f. primary_key f \<and> \<not> foreign_key f) fs @
     filter (\<lambda>f. \<not> primary_key f \<and> foreign_key f) fs"
  define ns where "ns = filter (\<lambda>f. \<not> primary_key f \<and> \<not> foreign_key f) fs"
  have d: "self_fields d = ks @ ns"
    by (simp add: sf two_sorts ks_def ns_def)
  have k: "\<forall>x\<in>set ks. is_key x" by (auto simp: ks_def is_key_def)
  have n: "\<forall>x\<in>set ns. \<not> is_key x" by (auto simp: ns_def is_key_def)
  show ?thesis
    unfolding d filter_front_run[OF k n] ..
qed

lemma split_lines_plantuml_entity:
  assumes "self_fields d = ks @ ns" and "\<forall>x\<in>set ks. is_key x" and "\<forall>x\<in>set ns. \<not> is_key x"
    and "CHR ''\<newline>'' \<notin> set (db_table (self_meta d))"
    and "\<forall>f\<in>set (self_fields d).
           CHR ''\<newline>'' \<notin> set (name f) \<and> CHR ''\<newline>'' \<notin> set (db_type f)"
  shows "split_lines (plantuml_entity d) =
           (''entity '' @ db_table (self_meta d) @ '' {'') #
           map field_line ks @
           (if ks = [] then [] else [separator_line]) @
           map field_line ns @ [''}'']"
proof -
  define ls where "ls =
           (''entity '' @ db_table (self_meta d) @ '' {'') #
           map field_line ks @
           (if ks = [] then [] else [separator_line]) @
           map field_line ns @ [''}'']"
  have r: "concat (map plantuml_entity_repr xs) =
           concat (map (\<lambda>l. l @ ''\<newline>'') (map field_line xs))" for xs
    by (induction xs) (simp_all add: plantuml_entity_repr_line)
  have "plantuml_entity d = concat (map (\<lambda>l. l @ ''\<newline>'') ls) @ []"
    unfolding plantuml_entity_front_run[OF assms(1-3)] r ls_def by simp
  moreover have "\<forall>l\<in>set ls. CHR ''\<newline>'' \<notin> set l"
    using assms(1,4,5) by (auto simp: ls_def separator_line_def field_line_no_newline)
  ultimately have "split_lines (plantuml_entity d) = ls @ split_lines []"
    by (simp only: split_lines_concat)
  then show ?thesis by (simp add: ls_def)
qed


section \<open>Properties of the schema descriptor\<close>

text \<open>
  Claim C1. Whenever the constructor returns a descriptor, in its field list every primary
  key field stands before every field that is not a primary key; among the fields that
  are not primary keys, every foreign key field stands before every field that is not a
  foreign key; and the fields with the same pair of flags are in the order in which the
  columns were declared.
\<close>

theorem fields_ordering_invariant:
  assumes "ModelDescriptor_init conns model = Inr d"
  shows "(\<forall>i j. i < j \<and> j < length (self_fields d) \<and> primary_key (self_fields d ! j)
            \<longrightarrow> primary_key (self_fields d ! i)) \<and>
         (\<forall>i j. i < j \<and> j < length (self_fields d) \<and>
                 \<not> primary_key (self_fields d ! i) \<and> \<not> primary_key (self_fields d ! j) \<and>
                 foreign_key (self_fields d ! j)
            \<longrightarrow> foreign_key (self_fields d ! i)) \<and>
         (\<exists>connection fs.
            conns (app_label (meta model)) = Some connection \<and>
            map (make_Field connection) (meta_fields (meta model)) = map Inr fs \<and>
            (\<forall>pk fk. filter (\<lambda>f. primary_key f = pk \<and> foreign_key f = fk) (self_fields d) =
                     filter (\<lambda>f. primary_key f = pk \<and> foreign_key f = fk) fs))"
proof -
  from ModelDescriptor_init_Inr[OF assms] obtain connection fs where
    c: "conns (app_label (meta model)) = Some connection" and
    fs: "map (make_Field connection) (meta_fields (meta model)) = map Inr fs" and
    sf: "self_fields d = sort_reverse primary_key (sort_reverse foreign_key fs)"
    by blast
  define A where "A = filter primary_key (sort_reverse foreign_key fs)"
  define B1 where "B1 = filter (\<lambda>f. \<not> primary_key f \<and> foreign_key f) fs"
  define B2 where "B2 = filter (\<lambda>f. \<not> primary_key f \<and> \<not> foreign_key f) fs"
  have d: "self_fields d = A @ (B1 @ B2)"
    by (simp add: sf A_def B1_def B2_def sort_reverse_eq conj_commute)
  have A: "\<forall>x\<in>set A. primary_key x" by (simp add: A_def)
  have B: "\<forall>x\<in>set (B1 @ B2). \<not> primary_key x" by (auto simp: B1_def B2_def)
  have B1: "\<forall>x\<in>set B1. foreign_key x" by (simp add: B1_def)
  have B2: "\<forall>x\<in>set B2. \<not> foreign_key x" by (simp add: B2_def)
  have pk: "primary_key (self_fields d ! i)"
    if "i < j" "j < length (self_fields d)" "primary_key (self_fields d ! j)" for i j
    using front_run_nth[OF A B, of i j] that by (simp add: d)
  have fk: "foreign_key (self_fields d ! i)"
    if "i < j" "j < length (self_fields d)" "\<not> primary_key (self_fields d ! i)"
      "\<not> primary_key (self_fields d ! j)" "foreign_key (self_fields d ! j)" for i j
  proof -
    have i: "length A \<le> i"
    proof (rule ccontr)
      assume "\<not> length A \<le> i"
      then have "self_fields d ! i \<in> set A" by (simp add: d nth_append)
      with A that(3) show False by blast
    qed
    then have j: "length A \<le> j" using that(1) by simp
    have ei: "self_fields d ! i = (B1 @ B2) ! (i - length A)"
      using i by (simp add: d nth_append)
    have ej: "self_fields d ! j = (B1 @ B2) ! (j - length A)"
      using j by (simp add: d nth_append)
    have "i - length A < j - length A" using i that(1) by simp
    moreover have "j - length A < length (B1 @ B2)" using j that(2) by (simp add: d)
    moreover have "foreign_key ((B1 @ B2) ! (j - length A))" using that(5) ej by simp
    ultimately have "foreign_key ((B1 @ B2) ! (i - length A))"
      by (rule front_run_nth[OF B1 B2])
    then show ?thesis by (simp add: ei)
  qed
  have tie: "filter (\<lambda>f. primary_key f = p \<and> foreign_key f = q) (self_fields d) =
             filter (\<lambda>f. primary_key f = p \<and> foreign_key f = q) fs" for p q
  proof -
    have "filter (\<lambda>f. primary_key f = p \<and> foreign_key f = q) (self_fields d) =
          filter (\<lambda>f. primary_key f = p \<and> foreign_key f = q) (sort_reverse foreign_key fs)"
      unfolding sf by (rule filter_sort_reverse)
    also have "\<dots> = filter (\<lambda>f. foreign_key f = q \<and> primary_key f = p) (sort_reverse foreign_key fs)"
      by (simp add: conj_commute)
    also have "\<dots> = filter (\<lambda>f. foreign_key f = q \<and> primary_key f = p) fs"
      by (rule filter_sort_reverse)
    finally show ?thesis by (simp add: conj_commute)
  qed
  from pk fk tie c fs show ?thesis by blast
qed

theorem fields_ordering_invariant_witness:
  "\<not> isl (ModelDescriptor_init example_connections orders) \<and>
   foreign_key (self_fields (projr (ModelDescriptor_init example_connections orders)) ! 1)"
proof -
  have ok: "\<not> isl (ModelDescriptor_init example_connections orders)"
    by code_simp
  then have h: "ModelDescriptor_init example_connections orders =
      Inr (projr (ModelDescriptor_init example_connections orders))"
    by simp
  have "(1::nat) < 2 \<and> 2 < length (self_fields (projr (ModelDescriptor_init example_connections orders))) \<and>
      \<not> primary_key (self_fields (projr (ModelDescriptor_init example_connections orders)) ! 1) \<and>
      \<not> primary_key (self_fields (projr (ModelDescriptor_init example_connections orders)) ! 2) \<and>
      foreign_key (self_fields (projr (ModelDescriptor_init example_connections orders)) ! 2)"
    by code_simp
  with fields_ordering_invariant[OF h] ok show ?thesis by blast
qed

text \<open>
  Claim C3 as stated fails in the error it names. For the second column of \<open>untyped\<close> the
  backend resolves no type: \<^verbatim>\<open>db_type\<close> returns \<^verbatim>\<open>None\<close>, \<^verbatim>\<open>.upper()\<close> raises, and the constructor
  fails with \<open>AttributeError\<close>, not with the error of the specification. For the second
  column of \<open>unresolved\<close> the backend raises, and the constructor fails with that exception
  of the backend.
\<close>

theorem unresolved_type_counterexample:
  "ModelDescriptor_init example_connections untyped = Inl AttributeError \<and>
   ModelDescriptor_init example_connections untyped \<noteq> Inl spec_UnsupportedSchemaError \<and>
   ModelDescriptor_init example_connections unresolved = Inl (FieldException ''NotSupportedError'') \<and>
   ModelDescriptor_init example_connections unresolved \<noteq> Inl spec_UnsupportedSchemaError"
  by (simp add: ModelDescriptor_init_def load_def Let_def example_connections_def untyped_def
      unresolved_def column_def make_Field_def spec_UnsupportedSchemaError_def)

text \<open>
  Claim C3, amended. When the type of a column cannot be resolved, that is, \<^verbatim>\<open>db_type\<close> raises
  for it or returns \<^verbatim>\<open>None\<close>, and the types of the columns declared before it are resolved,
  the constructor raises: the exception that \<^verbatim>\<open>db_type\<close> raised, unchanged, or
  \<open>AttributeError\<close> when \<^verbatim>\<open>db_type\<close> returned \<^verbatim>\<open>None\<close>. Nothing is caught and no descriptor is
  returned.
\<close>

theorem unresolved_type_aborts:
  assumes "conns (app_label (meta model)) = Some connection"
    and "meta_fields (meta model) = pre @ col # post"
    and "\<forall>c\<in>set pre. \<exists>t. django_field.db_type c connection = Inr (Some t)"
    and "\<forall>t. django_field.db_type col connection \<noteq> Inr (Some t)"
  shows "ModelDescriptor_init conns model =
           Inl (case django_field.db_type col connection of
                  Inl e \<Rightarrow> e | Inr r \<Rightarrow> AttributeError)"
proof -
  have "\<forall>c\<in>set pre. \<exists>f. make_Field connection c = Inr f"
    using assms(3) by (auto simp: make_Field_def)
  moreover have "make_Field connection col =
      Inl (case django_field.db_type col connection of Inl e \<Rightarrow> e | Inr r \<Rightarrow> AttributeError)"
    using assms(4) by (rule make_Field_unresolved)
  ultimately have "load_fields connection (pre @ col # post) self =
      Inl (case django_field.db_type col connection of Inl e \<Rightarrow> e | Inr r \<Rightarrow> AttributeError)"
    for self
    by (rule load_fields_Inl)
  then show ?thesis
    using assms(1,2) by (intro ModelDescriptor_init_Inl) simp_all
qed

theorem unresolved_type_aborts_witness:
  "ModelDescriptor_init example_connections unresolved = Inl (FieldException ''NotSupportedError'') \<and>
   ModelDescriptor_init example_connections untyped = Inl AttributeError"
proof -
  let ?id = "column ''id'' ''ID'' (Inr (Some ''bigint'')) True IsNone False True"
  let ?payload = "column ''payload'' ''payload'' (Inl (FieldException ''NotSupportedError''))
     False NoAttribute False False"
  let ?status = "column ''status'' ''status'' (Inr (Some ''varchar(20)'')) False NoAttribute
     False False"
  let ?outline = "column ''outline'' ''outline'' (Inr None) False NoAttribute False False"
  let ?label = "column ''label'' ''label'' (Inr (Some ''varchar(20)'')) False NoAttribute
     False False"
  have 1: "example_connections (app_label (meta unresolved)) = Some (Connection ''MySQL'')"
    by (simp add: example_connections_def unresolved_def)
  have 2: "meta_fields (meta unresolved) = [?id] @ ?payload # [?status]"
    by (simp add: unresolved_def)
  have 3: "\<forall>c\<in>set [?id]. \<exists>t. django_field.db_type c (Connection ''MySQL'') = Inr (Some t)"
    by (simp add: column_def)
  have 4: "\<forall>t. django_field.db_type ?payload (Connection ''MySQL'') \<noteq> Inr (Some t)"
    by (simp add: column_def)
  have a: "ModelDescriptor_init example_connections unresolved =
      Inl (FieldException ''NotSupportedError'')"
    using unresolved_type_aborts[where conns = example_connections and model = unresolved
        and connection = "Connection ''MySQL''" and pre = "[?id]" and col = ?payload
        and post = "[?status]"] 1 2 3 4
    by (simp add: column_def)
  have 5: "example_connections (app_label (meta untyped)) = Some (Connection ''MySQL'')"
    by (simp add: example_connections_def untyped_def)
  have 6: "meta_fields (meta untyped) = [?id] @ ?outline # [?label]"
    by (simp add: untyped_def)
  have 7: "\<forall>t. django_field.db_type ?outline (Connection ''MySQL'') \<noteq> Inr (Some t)"
    by (simp add: column_def)
  have b: "ModelDescriptor_init example_connections untyped = Inl AttributeError"
    using unresolved_type_aborts[where conns = example_connections and model = untyped
        and connection = "Connection ''MySQL''" and pre = "[?id]" and col = ?outline
        and post = "[?label]"] 5 6 3 7
    by (simp add: column_def)
  from a b show ?thesis ..
qed

text \<open>
  Claim C10. Whenever the constructor returns a descriptor, its field list is a permutation
  of the fields made from the columns, one for each column: nothing is dropped and nothing
  is duplicated.
\<close>

theorem fields_permutation:
  assumes "ModelDescriptor_init conns model = Inr d"
  shows "\<exists>connection fs.
           conns (app_label (meta model)) = Some connection \<and>
           map (make_Field connection) (meta_fields (meta model)) = map Inr fs \<and>
           mset (self_fields d) = mset fs \<and>
           length (self_fields d) = length (meta_fields (meta model))"
proof -
  from ModelDescriptor_init_Inr[OF assms] obtain connection fs where
    c: "conns (app_label (meta model)) = Some connection" and
    fs: "map (make_Field connection) (meta_fields (meta model)) = map Inr fs" and
    sf: "self_fields d = sort_reverse primary_key (sort_reverse foreign_key fs)"
    by blast
  have "mset (self_fields d) = mset fs"
    by (simp add: sf mset_sort_reverse)
  moreover have "length fs = length (meta_fields (meta model))"
    using arg_cong[OF fs, of length] by simp
  then have "length (self_fields d) = length (meta_fields (meta model))"
    by (simp add: sf length_sort_reverse)
  ultimately show ?thesis using c fs by blast
qed

theorem fields_permutation_witness:
  "\<not> isl (ModelDescriptor_init example_connections orders) \<and>
   length (self_fields (projr (ModelDescriptor_init example_connections orders))) = 4"
proof -
  have ok: "\<not> isl (ModelDescriptor_init example_connections orders)"
    by code_simp
  then have h: "ModelDescriptor_init example_connections orders =
      Inr (projr (ModelDescriptor_init example_connections orders))"
    by simp
  have "length (meta_fields (meta orders)) = 4"
    by (simp add: orders_def)
  with fields_permutation[OF h] ok show ?thesis by auto
qed

text \<open>
  Claim C4 as stated fails: the source removes spaces and line feeds only. The docstring of
  \<open>tabbed\<close> holds a tab, which is whitespace and stays in the description.
\<close>

theorem table_description_counterexample:
  "map_sum id self_model_description (ModelDescriptor_init example_connections tabbed) =
     Inr (''Notes'' @ [CHR 0x09] @ ''ofauser'') \<and>
   spec_table_description (doc tabbed) = ''Notesofauser'' \<and>
   map_sum id self_model_description (ModelDescriptor_init example_connections tabbed) \<noteq>
     Inr (spec_table_description (doc tabbed))"
  by code_simp

text \<open>
  Claim C4, amended. Whenever the constructor returns a descriptor, its description is the
  docstring with every space and every line feed removed; every other character, other
  whitespace included, is kept in place.
\<close>

theorem table_description_spaces_and_newlines_removed:
  assumes "ModelDescriptor_init conns model = Inr d"
  shows "self_model_description d =
           filter (\<lambda>c. c \<noteq> CHR '' '' \<and> c \<noteq> CHR ''\<newline>'') (doc model)"
proof -
  from ModelDescriptor_init_Inr[OF assms] have
    "self_model_description d = replace (replace (doc model) CHR '' '' '''') CHR ''\<newline>'' ''''"
    by blast
  then show ?thesis
    by (simp add: replace_remove conj_commute)
qed

theorem table_description_spaces_and_newlines_removed_witness:
  "\<not> isl (ModelDescriptor_init example_connections tabbed) \<and>
   self_model_description (projr (ModelDescriptor_init example_connections tabbed)) =
     ''Notes'' @ [CHR 0x09] @ ''ofauser''"
proof -
  have ok: "\<not> isl (ModelDescriptor_init example_connections tabbed)"
    by code_simp
  then have h: "ModelDescriptor_init example_connections tabbed =
      Inr (projr (ModelDescriptor_init example_connections tabbed))"
    by simp
  have "filter (\<lambda>c. c \<noteq> CHR '' '' \<and> c \<noteq> CHR ''\<newline>'') (doc tabbed) =
      ''Notes'' @ [CHR 0x09] @ ''ofauser''"
    by (simp add: tabbed_def)
  with table_description_spaces_and_newlines_removed[OF h] ok show ?thesis
    by simp
qed

text \<open>
  Claim C5 as stated fails in its "exactly when": a column with an empty verbose name has
  an empty description although the verbose name differs from the column name with
  underscores replaced by spaces.
\<close>

theorem description_counterexample:
  "\<not> isl (ModelDescriptor_init example_connections tabbed) \<and>
   map description (self_fields (projr (ModelDescriptor_init example_connections tabbed))) = [''''] \<and>
   map verbose_name (meta_fields (meta tabbed)) = [''''] \<and>
   map (\<lambda>c. replace (django_field.name c) CHR ''_'' '' '') (meta_fields (meta tabbed)) = [''a''] \<and>
   \<not> (description (hd (self_fields (projr (ModelDescriptor_init example_connections tabbed)))) = ''''
       \<longleftrightarrow> verbose_name (hd (meta_fields (meta tabbed))) =
           replace (django_field.name (hd (meta_fields (meta tabbed)))) CHR ''_'' '' '')"
  by code_simp

text \<open>
  Claim C5, amended. Whenever the constructor returns a descriptor, every column has a
  field of its name in the field list whose description is empty when the verbose name
  equals the column name with every underscore replaced by a space, and is the verbose
  name verbatim otherwise (hence also empty when the verbose name is empty); and every
  field of the list is made from a column.
\<close>

theorem description_suppression:
  assumes "ModelDescriptor_init conns model = Inr d"
  shows "\<exists>connection.
           conns (app_label (meta model)) = Some connection \<and>
           (\<forall>col\<in>set (meta_fields (meta model)).
              \<exists>f\<in>set (self_fields d).
                make_Field connection col = Inr f \<and>
                name f = django_field.name col \<and>
                description f =
                  (if verbose_name col = replace (django_field.name col) CHR ''_'' '' ''
                   then '''' else verbose_name col)) \<and>
           (\<forall>f\<in>set (self_fields d).
              \<exists>col\<in>set (meta_fields (meta model)). make_Field connection col = Inr f)"
proof -
  from ModelDescriptor_init_Inr[OF assms] obtain connection fs where
    c: "conns (app_label (meta model)) = Some connection" and
    fs: "map (make_Field connection) (meta_fields (meta model)) = map Inr fs" and
    sf: "self_fields d = sort_reverse primary_key (sort_reverse foreign_key fs)"
    by blast
  have s: "set (self_fields d) = set fs"
    by (simp add: sf set_sort_reverse)
  have i: "make_Field connection ` set (meta_fields (meta model)) = Inr ` set fs"
    using arg_cong[OF fs, of set] by simp
  have 1: "\<exists>f\<in>set (self_fields d).
                make_Field connection col = Inr f \<and>
                name f = django_field.name col \<and>
                description f =
                  (if verbose_name col = replace (django_field.name col) CHR ''_'' '' ''
                   then '''' else verbose_name col)"
    if "col \<in> set (meta_fields (meta model))" for col
  proof -
    from that i obtain f where f: "f \<in> set fs" "make_Field connection col = Inr f"
      by blast
    from f(2) have "name f = django_field.name col \<and>
        description f =
          (if verbose_name col = replace (django_field.name col) CHR ''_'' '' ''
           then '''' else verbose_name col)"
      by (auto simp: make_Field_def split: sum.splits option.splits)
    with f s show ?thesis by blast
  qed
  have 2: "\<exists>col\<in>set (meta_fields (meta model)). make_Field connection col = Inr f"
    if "f \<in> set (self_fields d)" for f
  proof -
    from that s have "Inr f \<in> make_Field connection ` set (meta_fields (meta model))"
      unfolding i by blast
    then show ?thesis by auto
  qed
  from c 1 2 show ?thesis by blast
qed

theorem description_suppression_witness:
  "\<not> isl (ModelDescriptor_init example_connections orders) \<and>
   (\<exists>f\<in>set (self_fields (projr (ModelDescriptor_init example_connections orders))).
      name f = ''customer_id'' \<and> description f = '''')"
proof -
  let ?col = "column ''customer_id'' ''customer id'' (Inr (Some ''bigint'')) False (Relation ''customer'')
           True False"
  have ok: "\<not> isl (ModelDescriptor_init example_connections orders)"
    by code_simp
  then have h: "ModelDescriptor_init example_connections orders =
      Inr (projr (ModelDescriptor_init example_connections orders))"
    by simp
  have col: "?col \<in> set (meta_fields (meta orders))"
    by (simp add: orders_def)
  have n: "django_field.name ?col = ''customer_id''"
    by (simp add: column_def)
  have v: "verbose_name ?col = replace (django_field.name ?col) CHR ''_'' '' ''"
    by (simp add: column_def replace_def)
  from description_suppression[OF h] col
  obtain f where "f \<in> set (self_fields (projr (ModelDescriptor_init example_connections orders)))"
    and "name f = django_field.name ?col"
    and "description f =
           (if verbose_name ?col = replace (django_field.name ?col) CHR ''_'' '' ''
            then '''' else verbose_name ?col)"
    by blast
  with n v ok show ?thesis by auto
qed

text \<open>
  Claim C6. Whenever the constructor returns a descriptor and no column name holds a
  comma, the markdown text ends with the additional-info table that has one \<open>index\<close> row
  for every indexed column that is not a primary key, in declaration order, then one
  \<open>index\<close> row for every group of \<^verbatim>\<open>index_together\<close> with its columns joined by a comma and
  a space, then the \<open>unique\<close> rows in the same way. The row of a group \<open>[a, b]\<close> has the
  value \<open>a, b\<close> and differs from the row of any single column.
\<close>

theorem additional_info_table:
  assumes "ModelDescriptor_init conns model = Inr d"
    and "\<forall>c\<in>set (meta_fields (meta model)). CHR '','' \<notin> set (django_field.name c)"
    and "\<forall>g\<in>set (index_together (meta model)). \<forall>n\<in>set g. CHR '','' \<notin> set n"
    and "\<forall>g\<in>set (unique_together (meta model)). \<forall>n\<in>set g. CHR '','' \<notin> set n"
  shows "markdown d =
           ''## '' @ db_table (meta model) @ ''\<newline>'' @
           self_model_description d @ ''\<newline>\<newline>'' @
           ''#### schema\<newline>'' @
           ''| field_name | type | description |\<newline>|---|---|---|\<newline>'' @
           concat (map markdown_repr (self_fields d)) @
           ''\<newline>\<newline>'' @
           ''#### additional info\<newline>'' @
           ''| type | value | description |\<newline>|---|---|---|\<newline>'' @
           concat (map (\<lambda>v. ''| index | '' @ v @ '' | |\<newline>'')
             (map django_field.name
                (filter (\<lambda>c. \<not> django_field.primary_key c \<and> db_index c)
                   (meta_fields (meta model))) @
              map (join '', '') (index_together (meta model)))) @
           concat (map (\<lambda>v. ''| unique | '' @ v @ '' | |\<newline>'')
             (map django_field.name
                (filter (\<lambda>c. \<not> django_field.primary_key c \<and> unique c)
                   (meta_fields (meta model))) @
              map (join '', '') (unique_together (meta model)))) \<and>
         (\<forall>a b n. [a, b] \<in> set (index_together (meta model)) \<and> CHR '','' \<notin> set n \<longrightarrow>
            join '', '' [a, b] = a @ '', '' @ b \<and>
            ''| index | '' @ join '', '' [a, b] @ '' | |\<newline>'' \<noteq>
            ''| index | '' @ n @ '' | |\<newline>'')"
proof -
  from ModelDescriptor_init_Inr[OF assms(1)] have
    m: "self_meta d = meta model" and
    i: "self_db_indexes d =
             map django_field.name
               (filter (\<lambda>c. \<not> django_field.primary_key c \<and> db_index c)
                  (meta_fields (meta model))) @
             map (join '','') (index_together (meta model))" and
    u: "self_unique_constraints d =
             map django_field.name
               (filter (\<lambda>c. \<not> django_field.primary_key c \<and> unique c)
                  (meta_fields (meta model))) @
             map (join '','') (unique_together (meta model))"
    by blast+
  have si: "\<forall>n\<in>set (map django_field.name
               (filter (\<lambda>c. \<not> django_field.primary_key c \<and> db_index c)
                  (meta_fields (meta model)))). CHR '','' \<notin> set n"
    using assms(2) by auto
  have su: "\<forall>n\<in>set (map django_field.name
               (filter (\<lambda>c. \<not> django_field.primary_key c \<and> unique c)
                  (meta_fields (meta model)))). CHR '','' \<notin> set n"
    using assms(2) by auto
  have 1: "markdown d =
           ''## '' @ db_table (meta model) @ ''\<newline>'' @
           self_model_description d @ ''\<newline>\<newline>'' @
           ''#### schema\<newline>'' @
           ''| field_name | type | description |\<newline>|---|---|---|\<newline>'' @
           concat (map markdown_repr (self_fields d)) @
           ''\<newline>\<newline>'' @
           ''#### additional info\<newline>'' @
           ''| type | value | description |\<newline>|---|---|---|\<newline>'' @
           concat (map (\<lambda>v. ''| index | '' @ v @ '' | |\<newline>'')
             (map django_field.name
                (filter (\<lambda>c. \<not> django_field.primary_key c \<and> db_index c)
                   (meta_fields (meta model))) @
              map (join '', '') (index_together (meta model)))) @
           concat (map (\<lambda>v. ''| unique | '' @ v @ '' | |\<newline>'')
             (map django_field.name
                (filter (\<lambda>c. \<not> django_field.primary_key c \<and> unique c)
                   (meta_fields (meta model))) @
              map (join '', '') (unique_together (meta model))))"
    unfolding markdown_eq m i u
      additional_info_rows[OF si assms(3), of "''| index | ''" "'' | |\<newline>''"]
      additional_info_rows[OF su assms(4), of "''| unique | ''" "'' | |\<newline>''"]
    ..
  have 2: "join '', '' [a, b] = a @ '', '' @ b \<and>
            ''| index | '' @ join '', '' [a, b] @ '' | |\<newline>'' \<noteq>
            ''| index | '' @ n @ '' | |\<newline>''"
    if "CHR '','' \<notin> set n" for a b n
  proof -
    have "CHR '','' \<in> set (join '', '' [a, b])" by (rule comma_in_join)
    with that have "join '', '' [a, b] \<noteq> n" by blast
    then show ?thesis by simp
  qed
  from 1 2 show ?thesis by blast
qed

theorem additional_info_table_witness:
  "\<not> isl (ModelDescriptor_init example_connections orders) \<and>
   markdown (projr (ModelDescriptor_init example_connections orders)) =
     ''## orders\<newline>Customerorderheader\<newline>\<newline>#### schema\<newline>| field_name | type | description |\<newline>|---|---|---|\<newline>| id | PK, BIGINT | ID |\<newline>| customer_id | FK, BIGINT |  |\<newline>| coupon_id | FK, BIGINT | coupon |\<newline>| status | VARCHAR(20) | order status |\<newline>\<newline>\<newline>#### additional info\<newline>| type | value | description |\<newline>|---|---|---|\<newline>| index | customer_id | |\<newline>| index | status, customer_id | |\<newline>| unique | status | |\<newline>''"
proof -
  have ok: "\<not> isl (ModelDescriptor_init example_connections orders)"
    by code_simp
  then have h: "ModelDescriptor_init example_connections orders =
      Inr (projr (ModelDescriptor_init example_connections orders))"
    by simp
  have 2: "\<forall>c\<in>set (meta_fields (meta orders)). CHR '','' \<notin> set (django_field.name c)"
    by (simp add: orders_def column_def)
  have 3: "\<forall>g\<in>set (index_together (meta orders)). \<forall>n\<in>set g. CHR '','' \<notin> set n"
    by (simp add: orders_def)
  have 4: "\<forall>g\<in>set (unique_together (meta orders)). \<forall>n\<in>set g. CHR '','' \<notin> set n"
    by (simp add: orders_def)
  have "''## '' @ db_table (meta orders) @ ''\<newline>'' @
           self_model_description (projr (ModelDescriptor_init example_connections orders)) @
           ''\<newline>\<newline>'' @
           ''#### schema\<newline>'' @
           ''| field_name | type | description |\<newline>|---|---|---|\<newline>'' @
           concat (map markdown_repr
             (self_fields (projr (ModelDescriptor_init example_connections orders)))) @
           ''\<newline>\<newline>'' @
           ''#### additional info\<newline>'' @
           ''| type | value | description |\<newline>|---|---|---|\<newline>'' @
           concat (map (\<lambda>v. ''| index | '' @ v @ '' | |\<newline>'')
             (map django_field.name
                (filter (\<lambda>c. \<not> django_field.primary_key c \<and> db_index c)
                   (meta_fields (meta orders))) @
              map (join '', '') (index_together (meta orders)))) @
           concat (map (\<lambda>v. ''| unique | '' @ v @ '' | |\<newline>'')
             (map django_field.name
                (filter (\<lambda>c. \<not> django_field.primary_key c \<and> unique c)
                   (meta_fields (meta orders))) @
              map (join '', '') (unique_together (meta orders)))) =
     ''## orders\<newline>Customerorderheader\<newline>\<newline>#### schema\<newline>| field_name | type | description |\<newline>|---|---|---|\<newline>| id | PK, BIGINT | ID |\<newline>| customer_id | FK, BIGINT |  |\<newline>| coupon_id | FK, BIGINT | coupon |\<newline>| status | VARCHAR(20) | order status |\<newline>\<newline>\<newline>#### additional info\<newline>| type | value | description |\<newline>|---|---|---|\<newline>| index | customer_id | |\<newline>| index | status, customer_id | |\<newline>| unique | status | |\<newline>''"
    by code_simp
  with additional_info_table[OF h 2 3 4] ok show ?thesis
    by simp
qed

text \<open>
  Claim C7. A descriptor with no fields renders without an error: the diagram is the
  entity block with an empty body, and the markdown text is the heading, the schema table
  with no row, and the additional-info table. The renderers return a string for every
  descriptor; they have no failing branch.
\<close>

theorem zero_fields_render:
  assumes "self_fields d = []"
  shows "plantuml_entity d = ''entity '' @ db_table (self_meta d) @ '' {\<newline>}\<newline>'' \<and>
         markdown d =
           ''## '' @ db_table (self_meta d) @ ''\<newline>'' @
           self_model_description d @ ''\<newline>\<newline>'' @
           ''#### schema\<newline>'' @
           ''| field_name | type | description |\<newline>|---|---|---|\<newline>'' @
           ''\<newline>\<newline>'' @
           ''#### additional info\<newline>'' @
           ''| type | value | description |\<newline>|---|---|---|\<newline>'' @
           concat (map (\<lambda>index. ''| index | '' @ replace index CHR '','' '', '' @ '' | |\<newline>'')
             (self_db_indexes d)) @
           concat (map (\<lambda>unique_constraint.
               ''| unique | '' @ replace unique_constraint CHR '','' '', '' @ '' | |\<newline>'')
             (self_unique_constraints d))"
  using assms by (simp add: markdown_eq plantuml_entity_eq)

theorem zero_fields_render_witness:
  "self_fields empty_table = [] \<and>
   plantuml_entity empty_table = ''entity nothing {\<newline>}\<newline>'' \<and>
   markdown empty_table =
     ''## nothing\<newline>Nothing\<newline>\<newline>#### schema\<newline>| field_name | type | description |\<newline>|---|---|---|\<newline>\<newline>\<newline>#### additional info\<newline>| type | value | description |\<newline>|---|---|---|\<newline>''"
proof -
  have h: "self_fields empty_table = []"
    by (simp add: empty_table_def)
  show ?thesis
    using h zero_fields_render[OF h] by (simp add: empty_table_def)
qed

text \<open>
  Claim C8. Both renderers are functions of the model alone: two descriptors with the same
  table name, description, field list, index list and unique-constraint list render to
  the same markdown text and to the same diagram text, whatever else their metadata
  holds. In particular rendering the same descriptor twice gives identical strings.
\<close>

theorem renderers_are_functions_of_the_model:
  assumes "db_table (self_meta d) = db_table (self_meta d')"
    and "self_model_description d = self_model_description d'"
    and "self_fields d = self_fields d'"
    and "self_db_indexes d = self_db_indexes d'"
    and "self_unique_constraints d = self_unique_constraints d'"
  shows "markdown d = markdown d' \<and> plantuml_entity d = plantuml_entity d'"
  using assms by (simp add: markdown_eq plantuml_entity_eq)

theorem renderers_are_functions_of_the_model_witness:
  "markdown (projr (ModelDescriptor_init example_connections orders)) =
     markdown ((projr (ModelDescriptor_init example_connections orders))
       \<lparr>self_meta := \<lparr>app_label = ''archive'', db_table = ''orders'', meta_fields = [],
          index_together = [], unique_together = []\<rparr>\<rparr>) \<and>
   plantuml_entity (projr (ModelDescriptor_init example_connections orders)) =
     plantuml_entity ((projr (ModelDescriptor_init example_connections orders))
       \<lparr>self_meta := \<lparr>app_label = ''archive'', db_table = ''orders'', meta_fields = [],
          index_together = [], unique_together = []\<rparr>\<rparr>)"
proof -
  have "db_table (self_meta (projr (ModelDescriptor_init example_connections orders))) = ''orders''"
    by code_simp
  then show ?thesis
    by (intro renderers_are_functions_of_the_model) simp_all
qed

text \<open>
  Claim C9. The choices of a field are carried and never rendered: two descriptors whose
  field lists agree once the choices are erased, and which agree on table name,
  description, indexes and unique constraints, render to the same markdown text and to
  the same diagram text.
\<close>

theorem choices_not_rendered:
  assumes "db_table (self_meta d) = db_table (self_meta d')"
    and "self_model_description d = self_model_description d'"
    and "map (\<lambda>f. f\<lparr>choices := []\<rparr>) (self_fields d) =
         map (\<lambda>f. f\<lparr>choices := []\<rparr>) (self_fields d')"
    and "self_db_indexes d = self_db_indexes d'"
    and "self_unique_constraints d = self_unique_constraints d'"
  shows "markdown d = markdown d' \<and> plantuml_entity d = plantuml_entity d'"
proof -
  let ?e = "\<lambda>f :: Field. f\<lparr>choices := []\<rparr>"
  have m: "map markdown_repr fs = map markdown_repr (map ?e fs)" for fs
    by (simp add: markdown_repr_def)
  have "map markdown_repr (self_fields d) = map markdown_repr (self_fields d')"
    using assms(3) m[of "self_fields d"] m[of "self_fields d'"] by simp
  then have md: "markdown d = markdown d'"
    using assms(1,2,4,5) by (simp add: markdown_eq)
  have l: "last_primary_or_foreign_key_index (map ?e fs) = last_primary_or_foreign_key_index fs"
    for fs
    by (rule last_primary_or_foreign_key_index_map) simp_all
  have b: "concat (map (\<lambda>(i, field). plantuml_entity_repr field @
               (if Some i = last_primary_or_foreign_key_index (map ?e fs)
                then [CHR 0x09] @ ''--\<newline>'' else []))
             (enumerate 0 (map ?e fs))) =
           concat (map (\<lambda>(i, field). plantuml_entity_repr field @
               (if Some i = last_primary_or_foreign_key_index fs
                then [CHR 0x09] @ ''--\<newline>'' else []))
             (enumerate 0 fs))" for fs
    unfolding l by (rule plantuml_body_map) (simp add: plantuml_entity_repr_def)
  have "plantuml_entity d = plantuml_entity d'"
    unfolding plantuml_entity_eq assms(1) b[of "self_fields d", symmetric]
      b[of "self_fields d'", symmetric] assms(3) ..
  with md show ?thesis ..
qed

theorem choices_not_rendered_witness:
  "markdown (projr (ModelDescriptor_init example_connections orders)) =
     markdown ((projr (ModelDescriptor_init example_connections orders))
       \<lparr>self_fields := map (\<lambda>f. f\<lparr>choices := [''new'', ''paid'']\<rparr>)
          (self_fields (projr (ModelDescriptor_init example_connections orders)))\<rparr>) \<and>
   plantuml_entity (projr (ModelDescriptor_init example_connections orders)) =
     plantuml_entity ((projr (ModelDescriptor_init example_connections orders))
       \<lparr>self_fields := map (\<lambda>f. f\<lparr>choices := [''new'', ''paid'']\<rparr>)
          (self_fields (projr (ModelDescriptor_init example_connections orders)))\<rparr>)"
  by (intro choices_not_rendered) (simp_all add: o_def)

text \<open>
  Claim C2. Whenever the constructor returns a descriptor whose table name, field names
  and types hold no line feed, the key fields are a front run of the field list, and the
  lines of the diagram are: the opening line, one line for every key field, the separator
  line when there is a key field and no separator line when there is none, one line for
  every other field, and the closing line. No field line is the separator line, so the
  separator occurs once or not at all, and the number of field lines before it is the
  number of fields that are a primary or a foreign key.
\<close>

theorem separator_placement:
  assumes "ModelDescriptor_init conns model = Inr d"
    and "CHR ''\<newline>'' \<notin> set (db_table (self_meta d))"
    and "\<forall>f\<in>set (self_fields d).
           CHR ''\<newline>'' \<notin> set (name f) \<and> CHR ''\<newline>'' \<notin> set (db_type f)"
  shows "self_fields d =
           filter is_key (self_fields d) @ filter (\<lambda>f. \<not> is_key f) (self_fields d) \<and>
         split_lines (plantuml_entity d) =
           (''entity '' @ db_table (self_meta d) @ '' {'') #
           map field_line (filter is_key (self_fields d)) @
           (if filter is_key (self_fields d) = [] then [] else [separator_line]) @
           map field_line (filter (\<lambda>f. \<not> is_key f) (self_fields d)) @ [''}''] \<and>
         separator_line \<notin> set (map field_line (self_fields d)) \<and>
         count_list (split_lines (plantuml_entity d)) separator_line =
           (if filter is_key (self_fields d) = [] then 0 else 1) \<and>
         (filter is_key (self_fields d) \<noteq> [] \<longrightarrow>
            length (takeWhile (\<lambda>l. l \<noteq> separator_line) (tl (split_lines (plantuml_entity d)))) =
            length (filter is_key (self_fields d)))"
proof -
  let ?ks = "filter is_key (self_fields d)"
  let ?ns = "filter (\<lambda>f. \<not> is_key f) (self_fields d)"
  have run: "self_fields d = ?ks @ ?ns"
    by (rule key_fields_front_run[OF assms(1)])
  have ls: "split_lines (plantuml_entity d) =
           (''entity '' @ db_table (self_meta d) @ '' {'') #
           map field_line ?ks @ (if ?ks = [] then [] else [separator_line]) @
           map field_line ?ns @ [''}'']"
    by (rule split_lines_plantuml_entity[OF run _ _ assms(2,3)]) simp_all
  have no: "separator_line \<notin> set (map field_line fs)" for fs
  proof
    assume "separator_line \<in> set (map field_line fs)"
    then obtain f where "separator_line = field_line f" by auto
    then have "field_line f = separator_line" by (rule sym)
    then show False by (simp add: field_line_not_separator)
  qed
  have h: "''entity '' @ db_table (self_meta d) @ '' {'' \<noteq> separator_line"
    by (simp add: separator_line_def)
  have c: "''}'' \<noteq> separator_line"
    by (simp add: separator_line_def)
  have z: "count_list (map field_line fs) separator_line = 0" for fs
    using no[of fs] count_list_0_iff[of "map field_line fs" separator_line] by blast
  have cnt: "count_list (split_lines (plantuml_entity d)) separator_line =
           (if ?ks = [] then 0 else 1)"
    unfolding ls using h c by (simp add: z)
  have tw: "length (takeWhile (\<lambda>l. l \<noteq> separator_line) (tl (split_lines (plantuml_entity d)))) =
            length ?ks" if "?ks \<noteq> []"
  proof -
    have "l \<noteq> separator_line" if "l \<in> set (map field_line ?ks)" for l
      using no[of ?ks] that by blast
    then have "takeWhile (\<lambda>l. l \<noteq> separator_line)
          (map field_line ?ks @ separator_line # map field_line ?ns @ [''}'']) =
        map field_line ?ks @ takeWhile (\<lambda>l. l \<noteq> separator_line)
          (separator_line # map field_line ?ns @ [''}''])"
      by (rule takeWhile_append2)
    then have "takeWhile (\<lambda>l. l \<noteq> separator_line)
          (map field_line ?ks @ separator_line # map field_line ?ns @ [''}'']) =
        map field_line ?ks"
      by simp
    then show ?thesis
      unfolding ls using that by simp
  qed
  from run ls no cnt tw show ?thesis by blast
qed

theorem separator_placement_witness:
  "\<not> isl (ModelDescriptor_init example_connections orders) \<and>
   split_lines (plantuml_entity (projr (ModelDescriptor_init example_connections orders))) =
     [''entity orders {'',
      CHR 0x09 # ''id: PK, BIGINT'',
      CHR 0x09 # ''customer_id: FK, BIGINT'',
      CHR 0x09 # ''coupon_id: FK, BIGINT'',
      CHR 0x09 # ''--'',
      CHR 0x09 # ''status: VARCHAR(20)'',
      ''}''] \<and>
   length (takeWhile (\<lambda>l. l \<noteq> separator_line)
     (tl (split_lines (plantuml_entity (projr (ModelDescriptor_init example_connections orders)))))) = 3"
proof -
  let ?d = "projr (ModelDescriptor_init example_connections orders)"
  have ok: "\<not> isl (ModelDescriptor_init example_connections orders)"
    by code_simp
  then have h: "ModelDescriptor_init example_connections orders = Inr ?d"
    by simp
  have 2: "CHR ''\<newline>'' \<notin> set (db_table (self_meta ?d))"
    by code_simp
  have 3: "\<forall>f\<in>set (self_fields ?d).
           CHR ''\<newline>'' \<notin> set (name f) \<and> CHR ''\<newline>'' \<notin> set (db_type f)"
    by code_simp
  have k: "filter is_key (self_fields ?d) \<noteq> [] \<and> length (filter is_key (self_fields ?d)) = 3"
    by code_simp
  have l: "(''entity '' @ db_table (self_meta ?d) @ '' {'') #
           map field_line (filter is_key (self_fields ?d)) @
           (if filter is_key (self_fields ?d) = [] then [] else [separator_line]) @
           map field_line (filter (\<lambda>f. \<not> is_key f) (self_fields ?d)) @ [''}''] =
     [''entity orders {'',
      CHR 0x09 # ''id: PK, BIGINT'',
      CHR 0x09 # ''customer_id: FK, BIGINT'',
      CHR 0x09 # ''coupon_id: FK, BIGINT'',
      CHR 0x09 # ''--'',
      CHR 0x09 # ''status: VARCHAR(20)'',
      ''}'']"
    by code_simp
  note sp = separator_placement[OF h 2 3]
  from sp have "split_lines (plantuml_entity ?d) =
           (''entity '' @ db_table (self_meta ?d) @ '' {'') #
           map field_line (filter is_key (self_fields ?d)) @
           (if filter is_key (self_fields ?d) = [] then [] else [separator_line]) @
           map field_line (filter (\<lambda>f. \<not> is_key f) (self_fields ?d)) @ [''}'']"
    by (rule conjunct1[OF conjunct2])
  then have s: "split_lines (plantuml_entity ?d) =
     [''entity orders {'',
      CHR 0x09 # ''id: PK, BIGINT'',
      CHR 0x09 # ''customer_id: FK, BIGINT'',
      CHR 0x09 # ''coupon_id: FK, BIGINT'',
      CHR 0x09 # ''--'',
      CHR 0x09 # ''status: VARCHAR(20)'',
      ''}'']"
    by (rule trans[OF _ l])
  from sp k have "length (takeWhile (\<lambda>l. l \<noteq> separator_line)
      (tl (split_lines (plantuml_entity ?d)))) = length (filter is_key (self_fields ?d))"
    by blast
  with k have t: "length (takeWhile (\<lambda>l. l \<noteq> separator_line)
      (tl (split_lines (plantuml_entity ?d)))) = 3"
    by (simp only:)
  from ok s t show ?thesis by blast
qed

end
